theory Spec2Isabelle
  imports Complex_Main "HOL-Library.Word" "HOL-Library.Monad_Syntax"
begin

section \<open>Color transfer between images: the notebook's two functions\<close>

text \<open>
  The repository is one notebook, \<^verbatim>\<open>color_transfer.ipynb\<close>, with two functions of
  substance: \<^verbatim>\<open>image_stats\<close> and \<^verbatim>\<open>color_transfer\<close>. Both are a handful of NumPy and
  OpenCV calls. The embedding keeps the statements of the notebook in their order and
  gives every library call a definition of its own, named after the call.

  Numbers. An 8-bit channel value is an \<open>8 word\<close>. A float32 value is modelled as an
  exact real number or one of the three IEEE special values: rounding of finite values
  and overflow of finite values to infinity are not modelled (every finite operation is
  exact), signed zeros are not distinguished. Division by zero, \<open>0/0\<close>, \<open>inf - inf\<close>
  and the propagation of NaN are modelled as IEEE 754 defines them, because the notebook
  divides by a standard deviation without a guard.

  Where exact arithmetic is the notebook's arithmetic. float32 holds every integer
  below \<open>2^24\<close>, so the sums that \<^verbatim>\<open>mean()\<close> and \<^verbatim>\<open>std()\<close> form over a constant plane
  of 8-bit samples are not rounded, in whatever order NumPy adds, as long as the plane
  has at most 65793 samples (\<open>65793 * 255 < 2^24\<close>). On larger planes, and on planes
  whose mean is not a float32 number, NumPy's results differ from the exact ones in
  the last digits, and a standard deviation that is 0 here may come out as a small
  positive number there. The statements below about statistics and about what
  depends on them are therefore made for inputs on which no sum is rounded, or for the
  statements of the notebook that do not round at all (\<^verbatim>\<open>np.clip\<close> and the two
  \<^verbatim>\<open>astype\<close>).
\<close>

subsection \<open>Values\<close>

type_synonym u8 = "8 word"

datatype fl = Fin real | PInf | NInf | NaN

fun fl_neg :: "fl \<Rightarrow> fl" where
  "fl_neg (Fin x) = Fin (- x)"
| "fl_neg PInf = NInf"
| "fl_neg NInf = PInf"
| "fl_neg NaN = NaN"

fun fl_add :: "fl \<Rightarrow> fl \<Rightarrow> fl" where
  "fl_add (Fin x) (Fin y) = Fin (x + y)"
| "fl_add NaN _ = NaN"
| "fl_add _ NaN = NaN"
| "fl_add PInf NInf = NaN"
| "fl_add NInf PInf = NaN"
| "fl_add PInf _ = PInf"
| "fl_add _ PInf = PInf"
| "fl_add NInf _ = NInf"
| "fl_add _ NInf = NInf"

definition fl_sub :: "fl \<Rightarrow> fl \<Rightarrow> fl" where
  "fl_sub x y = fl_add x (fl_neg y)"

text \<open>The sign of an infinite product or quotient: \<open>True\<close> is positive.\<close>

definition inf_of_sign :: "bool \<Rightarrow> fl" where
  "inf_of_sign pos = (if pos then PInf else NInf)"

fun fl_mul :: "fl \<Rightarrow> fl \<Rightarrow> fl" where
  "fl_mul (Fin x) (Fin y) = Fin (x * y)"
| "fl_mul NaN _ = NaN"
| "fl_mul _ NaN = NaN"
| "fl_mul PInf (Fin y) = (if y = 0 then NaN else inf_of_sign (0 < y))"
| "fl_mul NInf (Fin y) = (if y = 0 then NaN else inf_of_sign (y < 0))"
| "fl_mul (Fin x) PInf = (if x = 0 then NaN else inf_of_sign (0 < x))"
| "fl_mul (Fin x) NInf = (if x = 0 then NaN else inf_of_sign (x < 0))"
| "fl_mul PInf PInf = PInf"
| "fl_mul NInf NInf = PInf"
| "fl_mul PInf NInf = NInf"
| "fl_mul NInf PInf = NInf"

text \<open>
  NumPy's float division does not raise: \<open>x / 0\<close> is an infinity for \<open>x \<noteq> 0\<close> and
  \<open>0 / 0\<close> is NaN (a RuntimeWarning is printed, the program goes on).
\<close>

fun fl_div :: "fl \<Rightarrow> fl \<Rightarrow> fl" where
  "fl_div (Fin x) (Fin y) =
     (if y = 0 then (if x = 0 then NaN else inf_of_sign (0 < x)) else Fin (x / y))"
| "fl_div NaN _ = NaN"
| "fl_div _ NaN = NaN"
| "fl_div (Fin x) PInf = Fin 0"
| "fl_div (Fin x) NInf = Fin 0"
| "fl_div PInf (Fin y) = inf_of_sign (0 \<le> y)"
| "fl_div NInf (Fin y) = inf_of_sign (y < 0)"
| "fl_div PInf PInf = NaN"
| "fl_div PInf NInf = NaN"
| "fl_div NInf PInf = NaN"
| "fl_div NInf NInf = NaN"

fun fl_sqrt :: "fl \<Rightarrow> fl" where
  "fl_sqrt (Fin x) = (if x < 0 then NaN else Fin (sqrt x))"
| "fl_sqrt PInf = PInf"
| "fl_sqrt NInf = NaN"
| "fl_sqrt NaN = NaN"

text \<open>IEEE comparison: false as soon as one side is NaN.\<close>

fun fl_less :: "fl \<Rightarrow> fl \<Rightarrow> bool" where
  "fl_less NaN _ = False"
| "fl_less _ NaN = False"
| "fl_less (Fin x) (Fin y) = (x < y)"
| "fl_less _ NInf = False"
| "fl_less PInf _ = False"
| "fl_less NInf _ = True"
| "fl_less _ PInf = True"

subsection \<open>Images\<close>

text \<open>
  An image is a NumPy array of shape \<open>H \<times> W \<times> 3\<close>: a list of \<open>H\<close> rows of pixels, a
  pixel being its three channel values in the array's order (B, G, R in display
  space; L, a, b in transfer space). A plane is one channel, of shape \<open>H \<times> W\<close>.
\<close>

type_synonym 'a pixel = "'a \<times> 'a \<times> 'a"
type_synonym 'a image = "'a pixel list list"
type_synonym plane = "fl list list"

datatype channel = ChL | ChA | ChB

fun chan :: "channel \<Rightarrow> 'a pixel \<Rightarrow> 'a" where
  "chan ChL (l, a, b) = l"
| "chan ChA (l, a, b) = a"
| "chan ChB (l, a, b) = b"

definition plane_of :: "channel \<Rightarrow> 'a image \<Rightarrow> 'a list list" where
  "plane_of c img = map (map (chan c)) img"

text \<open>All the samples of an array, in row-major order, and whether there is one.\<close>

definition samples :: "'a list list \<Rightarrow> 'a list" where
  "samples p = concat p"

definition has_pixels :: "'a list list \<Rightarrow> bool" where
  "has_pixels p = (samples p \<noteq> [])"

subsection \<open>The OpenCV calls\<close>

text \<open>
  OpenCV is a library the notebook imports; its code is not the repository's. What is
  used of it here:
  \<^item> \<^verbatim>\<open>cv2.cvtColor(img, code)\<close> returns a new array of the shape of \<open>img\<close> whose pixel
    at each position is a function of the pixel of \<open>img\<close> at that position. That
    function (for \<^verbatim>\<open>COLOR_BGR2LAB\<close> and \<^verbatim>\<open>COLOR_LAB2BGR\<close> on 8-bit images) is a
    parameter of the model.
  \<^item> \<^verbatim>\<open>cv2.split\<close> returns the three planes, \<^verbatim>\<open>cv2.merge\<close> puts three planes of one
    shape together; planes of different shapes are an error of OpenCV's (\<open>None\<close>).
  What these calls do with an array that has no pixel differs between OpenCV versions
  (an assertion error, or an empty result) and is not modelled: the three definitions
  give \<open>None\<close> there, which stands for "decided by OpenCV", not for an error of the
  notebook's.
\<close>

definition cvtColor :: "(u8 pixel \<Rightarrow> u8 pixel) \<Rightarrow> u8 image \<Rightarrow> u8 image option" where
  "cvtColor conv img =
     (if has_pixels img then Some (map (map conv) img) else None)"

definition cv_split :: "'a image \<Rightarrow> ('a list list \<times> 'a list list \<times> 'a list list) option" where
  "cv_split img =
     (if has_pixels img
      then Some (plane_of ChL img, plane_of ChA img, plane_of ChB img)
      else None)"

definition merge_row :: "'a list \<Rightarrow> 'a list \<Rightarrow> 'a list \<Rightarrow> 'a pixel list" where
  "merge_row l a b = zip l (zip a b)"

definition cv_merge :: "'a list list \<times> 'a list list \<times> 'a list list \<Rightarrow> 'a image option" where
  "cv_merge lab =
     (case lab of (l, a, b) \<Rightarrow>
        if has_pixels l \<and> map length a = map length l \<and> map length b = map length l
        then Some (map (\<lambda>(rl, ra, rb). merge_row rl ra rb) (zip l (zip a b)))
        else None)"

subsection \<open>The NumPy calls\<close>

text \<open>
  \<^verbatim>\<open>a.mean()\<close> is the sum of all samples over their number; of an array without
  samples it is \<open>0/0\<close>, NaN. \<^verbatim>\<open>a.std()\<close> is, with NumPy's default \<^verbatim>\<open>ddof=0\<close>,
  \<^verbatim>\<open>sqrt(mean(abs(a - a.mean())**2))\<close>. NumPy forms both sums in float32, pairwise
  and in blocks; here the sums are exact, so the order of the additions plays no part.
\<close>

primrec fl_sum :: "fl list \<Rightarrow> fl" where
  "fl_sum [] = Fin 0"
| "fl_sum (x # xs) = fl_add x (fl_sum xs)"

definition np_mean :: "plane \<Rightarrow> fl" where
  "np_mean p = fl_div (fl_sum (samples p)) (Fin (real (length (samples p))))"

definition np_std :: "plane \<Rightarrow> fl" where
  "np_std p =
     fl_sqrt (np_mean (map (map (\<lambda>x. let d = fl_sub x (np_mean p) in fl_mul d d)) p))"

text \<open>Arithmetic of an array with a scalar, elementwise.\<close>

definition np_sub :: "plane \<Rightarrow> fl \<Rightarrow> plane" where
  "np_sub p s = map (map (\<lambda>x. fl_sub x s)) p"

definition np_add :: "plane \<Rightarrow> fl \<Rightarrow> plane" where
  "np_add p s = map (map (\<lambda>x. fl_add x s)) p"

definition np_scale :: "fl \<Rightarrow> plane \<Rightarrow> plane" where
  "np_scale s p = map (map (\<lambda>x. fl_mul s x)) p"

text \<open>
  \<^verbatim>\<open>np.clip(a, lo, hi)\<close> is \<^verbatim>\<open>minimum(maximum(a, lo), hi)\<close>, elementwise; a NaN stays
  a NaN.
\<close>

definition clip_val :: "real \<Rightarrow> real \<Rightarrow> fl \<Rightarrow> fl" where
  "clip_val lo hi x =
     (case x of
        NaN \<Rightarrow> NaN
      | _ \<Rightarrow> if fl_less x (Fin lo) then Fin lo
             else if fl_less (Fin hi) x then Fin hi
             else x)"

definition np_clip :: "plane \<Rightarrow> real \<Rightarrow> real \<Rightarrow> plane" where
  "np_clip p lo hi = map (map (clip_val lo hi)) p"

text \<open>
  \<^verbatim>\<open>astype("float32")\<close> of an 8-bit array is exact. \<^verbatim>\<open>astype("uint8")\<close> of a float
  array is C's conversion: the fraction is dropped (truncation toward zero); a finite
  value outside \<open>0..255\<close> is reduced modulo 256 here; what NaN and the infinities
  become is left to the platform by C, so it is the parameter \<open>nan_cast\<close>. The cast
  never raises.
\<close>

definition u8_to_fl :: "u8 \<Rightarrow> fl" where
  "u8_to_fl w = Fin (real (unat w))"

definition float_pixel :: "u8 pixel \<Rightarrow> fl pixel" where
  "float_pixel p = (case p of (x, y, z) \<Rightarrow> (u8_to_fl x, u8_to_fl y, u8_to_fl z))"

definition astype_float32 :: "u8 image \<Rightarrow> fl image" where
  "astype_float32 img = map (map float_pixel) img"

definition trunc :: "real \<Rightarrow> int" where
  "trunc r = (if 0 \<le> r then \<lfloor>r\<rfloor> else \<lceil>r\<rceil>)"

fun fl_to_u8 :: "u8 \<Rightarrow> fl \<Rightarrow> u8" where
  "fl_to_u8 nan_cast (Fin r) = word_of_int (trunc r)"
| "fl_to_u8 nan_cast _ = nan_cast"

definition cast_pixel :: "u8 \<Rightarrow> fl pixel \<Rightarrow> u8 pixel" where
  "cast_pixel nan_cast p =
     (case p of (x, y, z) \<Rightarrow> (fl_to_u8 nan_cast x, fl_to_u8 nan_cast y, fl_to_u8 nan_cast z))"

definition astype_uint8 :: "u8 \<Rightarrow> fl image \<Rightarrow> u8 image" where
  "astype_uint8 nan_cast img = map (map (cast_pixel nan_cast)) img"

subsection \<open>\<^verbatim>\<open>image_stats\<close>\<close>

type_synonym stats = "fl \<times> fl \<times> fl \<times> fl \<times> fl \<times> fl"

definition image_stats :: "fl image \<Rightarrow> stats option" where
  "image_stats img = do {
     (l, a, b) \<leftarrow> cv_split img;
     let (lMean, lStd) = (np_mean l, np_std l);
     let (aMean, aStd) = (np_mean a, np_std a);
     let (bMean, bStd) = (np_mean b, np_std b);
     Some (lMean, lStd, aMean, aStd, bMean, bStd)
   }"

subsection \<open>\<^verbatim>\<open>color_transfer\<close>\<close>

text \<open>
  The first two statements of \<^verbatim>\<open>color_transfer\<close>, each
  \<^verbatim>\<open>cv2.cvtColor(x, cv2.COLOR_BGR2LAB).astype("float32")\<close>.
\<close>

definition bgr2lab_float :: "(u8 pixel \<Rightarrow> u8 pixel) \<Rightarrow> u8 image \<Rightarrow> fl image option" where
  "bgr2lab_float bgr2lab img = map_option astype_float32 (cvtColor bgr2lab img)"

text \<open>
  From the two calls of \<^verbatim>\<open>image_stats\<close> to "add the source mean": the three planes as
  they are before clipping. \<^verbatim>\<open>l -= lMeanTar\<close> and \<^verbatim>\<open>l += lMeanSrc\<close> update an array
  in place, \<^verbatim>\<open>l = (lStdTar/lStdSrc)*l\<close> makes a new one; here each is a new value
  of the name (the aliasing is the subject of the store model further down).
\<close>

definition remap_planes :: "fl image \<Rightarrow> fl image \<Rightarrow> (plane \<times> plane \<times> plane) option" where
  "remap_planes source target = do {
     (lMeanSrc, lStdSrc, aMeanSrc, aStdSrc, bMeanSrc, bStdSrc) \<leftarrow> image_stats source;
     (lMeanTar, lStdTar, aMeanTar, aStdTar, bMeanTar, bStdTar) \<leftarrow> image_stats target;
     (l, a, b) \<leftarrow> cv_split target;
     let l = np_sub l lMeanTar;
     let a = np_sub a aMeanTar;
     let b = np_sub b bMeanTar;
     let l = np_scale (fl_div lStdTar lStdSrc) l;
     let a = np_scale (fl_div aStdTar aStdSrc) a;
     let b = np_scale (fl_div bStdTar bStdSrc) b;
     let l = np_add l lMeanSrc;
     let a = np_add a aMeanSrc;
     let b = np_add b bMeanSrc;
     Some (l, a, b)
   }"

text \<open>"clipping the pixels between 0 and 255".\<close>

definition clip_planes :: "plane \<times> plane \<times> plane \<Rightarrow> plane \<times> plane \<times> plane" where
  "clip_planes lab =
     (case lab of (l, a, b) \<Rightarrow>
        let l = np_clip l 0 255;
            a = np_clip a 0 255;
            b = np_clip b 0 255
        in (l, a, b))"

definition color_transfer ::
  "(u8 pixel \<Rightarrow> u8 pixel) \<Rightarrow> (u8 pixel \<Rightarrow> u8 pixel) \<Rightarrow> u8 \<Rightarrow> u8 image \<Rightarrow> u8 image \<Rightarrow> u8 image option"
where
  "color_transfer bgr2lab lab2bgr nan_cast source target = do {
     source \<leftarrow> bgr2lab_float bgr2lab source;
     target \<leftarrow> bgr2lab_float bgr2lab target;
     lab \<leftarrow> remap_planes source target;
     transfer \<leftarrow> cv_merge (clip_planes lab);
     cvtColor lab2bgr (astype_uint8 nan_cast transfer)
   }"

subsection \<open>Reading the results\<close>

text \<open>
  The six numbers \<^verbatim>\<open>image_stats\<close> returns, by channel; and the population mean and
  standard deviation of a list of reals, written as the textbook has them (divisor
  \<open>N\<close>), to compare NumPy's results with.
\<close>

fun stat_mean :: "channel \<Rightarrow> stats \<Rightarrow> fl" where
  "stat_mean ChL (lMean, lStd, aMean, aStd, bMean, bStd) = lMean"
| "stat_mean ChA (lMean, lStd, aMean, aStd, bMean, bStd) = aMean"
| "stat_mean ChB (lMean, lStd, aMean, aStd, bMean, bStd) = bMean"


definition pop_mean :: "real list \<Rightarrow> real" where
  "pop_mean xs = sum_list xs / real (length xs)"

definition pop_std :: "real list \<Rightarrow> real" where
  "pop_std xs = sqrt (sum_list (map (\<lambda>x. (x - pop_mean xs)\<^sup>2) xs) / real (length xs))"

text \<open>
  What the three statements "subtract the mean", "scale", "add the source mean" make
  of one sample of a channel, and that function with the statistics of channel \<open>c\<close> of
  two images put in.
\<close>

definition remap_val :: "fl \<Rightarrow> fl \<Rightarrow> fl \<Rightarrow> fl \<Rightarrow> fl \<Rightarrow> fl" where
  "remap_val meanTar stdTar meanSrc stdSrc v =
     fl_add (fl_mul (fl_div stdTar stdSrc) (fl_sub v meanTar)) meanSrc"

definition remap_chan :: "channel \<Rightarrow> fl image \<Rightarrow> fl image \<Rightarrow> fl \<Rightarrow> fl" where
  "remap_chan c source target =
     remap_val (np_mean (plane_of c target)) (np_std (plane_of c target))
               (np_mean (plane_of c source)) (np_std (plane_of c source))"

text \<open>The Lab pixel handed to the conversion back, from the target's Lab pixel.\<close>

definition out_pixel :: "fl image \<Rightarrow> fl image \<Rightarrow> fl pixel \<Rightarrow> fl pixel" where
  "out_pixel source target p =
     (clip_val 0 255 (remap_chan ChL source target (chan ChL p)),
      clip_val 0 255 (remap_chan ChA source target (chan ChA p)),
      clip_val 0 255 (remap_chan ChB source target (chan ChB p)))"


text \<open>Two small display-space images of different shapes.\<close>

definition shape_source :: "u8 image" where
  "shape_source = [[(1, 2, 3)]]"

definition shape_target :: "u8 image" where
  "shape_target = [[(10, 20, 30), (40, 50, 60)], [(70, 80, 90), (1, 2, 3)]]"






text \<open>Three planes before clipping, with every kind of sample.\<close>

definition cast_planes :: "plane \<times> plane \<times> plane" where
  "cast_planes = ([[Fin (2547 / 10), NaN]], [[Fin (- 3), Fin 300]], [[PInf, NInf]])"

text \<open>
  The remapping as the specification words it, with the source's standard deviation
  over the target's as the scale factor; and a pair of Lab images to compare it with
  the notebook's on.
\<close>

definition spec_remap :: "real \<Rightarrow> real \<Rightarrow> real \<Rightarrow> real \<Rightarrow> real \<Rightarrow> real" where
  "spec_remap v targetMean targetStd sourceMean sourceStd =
     (v - targetMean) * (sourceStd / targetStd) + sourceMean"

definition scale_source :: "fl image" where
  "scale_source = [[(Fin 100, Fin 100, Fin 100), (Fin 104, Fin 104, Fin 104)]]"

definition scale_target :: "fl image" where
  "scale_target = [[(Fin 100, Fin 100, Fin 100), (Fin 102, Fin 102, Fin 102)]]"

text \<open>
  Lab images with constant channels (standard deviation 0), as float images and as the
  8-bit images they come from.
\<close>

definition flat_target :: "fl image" where
  "flat_target = [[(Fin 5, Fin 5, Fin 5), (Fin 5, Fin 5, Fin 5)]]"

definition flat_source :: "fl image" where
  "flat_source = [[(Fin 7, Fin 7, Fin 7), (Fin 7, Fin 7, Fin 7)]]"

definition flat_target8 :: "u8 image" where
  "flat_target8 = [[(5, 5, 5), (5, 5, 5)]]"

definition flat_source8 :: "u8 image" where
  "flat_source8 = [[(7, 7, 7), (7, 7, 7)]]"

text \<open>
  An image of one colour; the two \<open>2 \<times> 2\<close> images of the end-to-end example (the
  array holds a pixel as B, G, R, so RGB \<open>(200, 50, 50)\<close> is \<open>(50, 50, 200)\<close>); an image
  with two different pixels.
\<close>

definition uniform :: "nat \<Rightarrow> nat \<Rightarrow> 'a \<Rightarrow> 'a list list" where
  "uniform h w p = replicate h (replicate w p)"

definition flat_rgb_target :: "u8 image" where
  "flat_rgb_target = uniform 2 2 (100, 100, 100)"

definition flat_rgb_source :: "u8 image" where
  "flat_rgb_source = uniform 2 2 (50, 50, 200)"

definition varied_rgb :: "u8 image" where
  "varied_rgb = [[(0, 0, 0), (2, 2, 2)]]"

text \<open>
  "Equal up to a per-channel difference of at most 2 on the 8-bit scale", as the
  identity property words it.
\<close>

definition close_u8 :: "u8 \<Rightarrow> u8 \<Rightarrow> bool" where
  "close_u8 x y = (\<bar>int (unat x) - int (unat y)\<bar> \<le> 2)"

definition close_pixel :: "u8 pixel \<Rightarrow> u8 pixel \<Rightarrow> bool" where
  "close_pixel p q =
     (close_u8 (chan ChL p) (chan ChL q) \<and> close_u8 (chan ChA p) (chan ChA q) \<and>
      close_u8 (chan ChB p) (chan ChB q))"

definition within2 :: "u8 image \<Rightarrow> u8 image \<Rightarrow> bool" where
  "within2 out img = list_all2 (list_all2 close_pixel) out img"

subsection \<open>The same two functions on a store of arrays\<close>

text \<open>
  NumPy arrays are objects: a name holds a reference, \<^verbatim>\<open>l -= m\<close> and \<^verbatim>\<open>l += m\<close> write
  into the array the name refers to, and every other call used here
  (\<^verbatim>\<open>cv2.cvtColor\<close>, \<^verbatim>\<open>astype\<close>, \<^verbatim>\<open>cv2.split\<close>, \<^verbatim>\<open>cv2.merge\<close>, \<^verbatim>\<open>np.clip\<close>, a scalar
  times an array) returns a new array. The store is the list of all arrays made so
  far, a reference is a position in it, and a new array goes to the end. Means,
  standard deviations and their quotients are scalars, not arrays.
\<close>

datatype array = U8 "u8 image" | F32 "fl image" | Plane plane

type_synonym store = "array list"
type_synonym ref = nat

definition new_array :: "array \<Rightarrow> store \<Rightarrow> ref \<times> store" where
  "new_array a h = (length h, h @ [a])"

definition read_u8 :: "store \<Rightarrow> ref \<Rightarrow> u8 image option" where
  "read_u8 h r = (if r < length h then (case h ! r of U8 img \<Rightarrow> Some img | _ \<Rightarrow> None) else None)"

definition read_f32 :: "store \<Rightarrow> ref \<Rightarrow> fl image option" where
  "read_f32 h r = (if r < length h then (case h ! r of F32 img \<Rightarrow> Some img | _ \<Rightarrow> None) else None)"

definition read_plane :: "store \<Rightarrow> ref \<Rightarrow> plane option" where
  "read_plane h r = (if r < length h then (case h ! r of Plane p \<Rightarrow> Some p | _ \<Rightarrow> None) else None)"

definition cvtColor_st :: "(u8 pixel \<Rightarrow> u8 pixel) \<Rightarrow> ref \<Rightarrow> store \<Rightarrow> (ref \<times> store) option" where
  "cvtColor_st conv r h = do {
     img \<leftarrow> read_u8 h r;
     out \<leftarrow> cvtColor conv img;
     Some (new_array (U8 out) h)
   }"

definition astype_float32_st :: "ref \<Rightarrow> store \<Rightarrow> (ref \<times> store) option" where
  "astype_float32_st r h = do {
     img \<leftarrow> read_u8 h r;
     Some (new_array (F32 (astype_float32 img)) h)
   }"

definition astype_uint8_st :: "u8 \<Rightarrow> ref \<Rightarrow> store \<Rightarrow> (ref \<times> store) option" where
  "astype_uint8_st nan_cast r h = do {
     img \<leftarrow> read_f32 h r;
     Some (new_array (U8 (astype_uint8 nan_cast img)) h)
   }"

definition cv_split_st :: "ref \<Rightarrow> store \<Rightarrow> ((ref \<times> ref \<times> ref) \<times> store) option" where
  "cv_split_st r h = do {
     img \<leftarrow> read_f32 h r;
     (l, a, b) \<leftarrow> cv_split img;
     let (rl, h) = new_array (Plane l) h;
     let (ra, h) = new_array (Plane a) h;
     let (rb, h) = new_array (Plane b) h;
     Some ((rl, ra, rb), h)
   }"

definition cv_merge_st :: "ref \<times> ref \<times> ref \<Rightarrow> store \<Rightarrow> (ref \<times> store) option" where
  "cv_merge_st rs h =
     (case rs of (rl, ra, rb) \<Rightarrow> do {
        l \<leftarrow> read_plane h rl;
        a \<leftarrow> read_plane h ra;
        b \<leftarrow> read_plane h rb;
        img \<leftarrow> cv_merge (l, a, b);
        Some (new_array (F32 img) h)
      })"

definition mean_st :: "ref \<Rightarrow> store \<Rightarrow> fl option" where
  "mean_st r h = map_option np_mean (read_plane h r)"

definition std_st :: "ref \<Rightarrow> store \<Rightarrow> fl option" where
  "std_st r h = map_option np_std (read_plane h r)"

text \<open>\<^verbatim>\<open>l -= m\<close> and \<^verbatim>\<open>l += m\<close>: the array at the reference is overwritten.\<close>

definition isub_st :: "ref \<Rightarrow> fl \<Rightarrow> store \<Rightarrow> store option" where
  "isub_st r s h = do {
     p \<leftarrow> read_plane h r;
     Some (h[r := Plane (np_sub p s)])
   }"

definition iadd_st :: "ref \<Rightarrow> fl \<Rightarrow> store \<Rightarrow> store option" where
  "iadd_st r s h = do {
     p \<leftarrow> read_plane h r;
     Some (h[r := Plane (np_add p s)])
   }"

definition scale_st :: "fl \<Rightarrow> ref \<Rightarrow> store \<Rightarrow> (ref \<times> store) option" where
  "scale_st s r h = do {
     p \<leftarrow> read_plane h r;
     Some (new_array (Plane (np_scale s p)) h)
   }"

definition clip_st :: "ref \<Rightarrow> real \<Rightarrow> real \<Rightarrow> store \<Rightarrow> (ref \<times> store) option" where
  "clip_st r lo hi h = do {
     p \<leftarrow> read_plane h r;
     Some (new_array (Plane (np_clip p lo hi)) h)
   }"

definition image_stats_st :: "ref \<Rightarrow> store \<Rightarrow> (stats \<times> store) option" where
  "image_stats_st img h = do {
     ((l, a, b), h) \<leftarrow> cv_split_st img h;
     lMean \<leftarrow> mean_st l h;
     lStd \<leftarrow> std_st l h;
     aMean \<leftarrow> mean_st a h;
     aStd \<leftarrow> std_st a h;
     bMean \<leftarrow> mean_st b h;
     bStd \<leftarrow> std_st b h;
     Some ((lMean, lStd, aMean, aStd, bMean, bStd), h)
   }"

definition color_transfer_st ::
  "(u8 pixel \<Rightarrow> u8 pixel) \<Rightarrow> (u8 pixel \<Rightarrow> u8 pixel) \<Rightarrow> u8 \<Rightarrow> ref \<Rightarrow> ref \<Rightarrow> store
     \<Rightarrow> (ref \<times> store) option"
where
  "color_transfer_st bgr2lab lab2bgr nan_cast source target h = do {
     (t, h) \<leftarrow> cvtColor_st bgr2lab source h;
     (source, h) \<leftarrow> astype_float32_st t h;
     (t, h) \<leftarrow> cvtColor_st bgr2lab target h;
     (target, h) \<leftarrow> astype_float32_st t h;
     ((lMeanSrc, lStdSrc, aMeanSrc, aStdSrc, bMeanSrc, bStdSrc), h) \<leftarrow> image_stats_st source h;
     ((lMeanTar, lStdTar, aMeanTar, aStdTar, bMeanTar, bStdTar), h) \<leftarrow> image_stats_st target h;
     ((l, a, b), h) \<leftarrow> cv_split_st target h;
     h \<leftarrow> isub_st l lMeanTar h;
     h \<leftarrow> isub_st a aMeanTar h;
     h \<leftarrow> isub_st b bMeanTar h;
     (l, h) \<leftarrow> scale_st (fl_div lStdTar lStdSrc) l h;
     (a, h) \<leftarrow> scale_st (fl_div aStdTar aStdSrc) a h;
     (b, h) \<leftarrow> scale_st (fl_div bStdTar bStdSrc) b h;
     h \<leftarrow> iadd_st l lMeanSrc h;
     h \<leftarrow> iadd_st a aMeanSrc h;
     h \<leftarrow> iadd_st b bMeanSrc h;
     (l, h) \<leftarrow> clip_st l 0 255 h;
     (a, h) \<leftarrow> clip_st a 0 255 h;
     (b, h) \<leftarrow> clip_st b 0 255 h;
     (transfer, h) \<leftarrow> cv_merge_st (l, a, b) h;
     (t, h) \<leftarrow> astype_uint8_st nan_cast transfer h;
     cvtColor_st lab2bgr t h
   }"

text \<open>
  A store extends another when everything the other held is still there, unchanged;
  and the store of a caller who holds the two images of different shapes.
\<close>

definition extends :: "store \<Rightarrow> store \<Rightarrow> bool" where
  "extends h0 h = (length h0 \<le> length h \<and> take (length h0) h = h0)"

definition caller_store :: store where
  "caller_store = [U8 shape_source, U8 shape_target]"

section \<open>Properties\<close>

subsection \<open>Statistics\<close>

lemma fl_sum_Fin: "fl_sum (map Fin xs) = Fin (sum_list xs)"
  by (induction xs) simp_all

lemma samples_map: "samples (map (map f) p) = map f (samples p)"
  by (simp add: samples_def map_concat)

lemma has_pixels_map: "has_pixels (map (map f) t) = has_pixels t"
  by (simp add: has_pixels_def samples_map)

lemma np_mean_Fin:
  "np_mean (map (map Fin) rs) =
     (if samples rs = [] then NaN else Fin (pop_mean (samples rs)))"
  by (simp add: np_mean_def samples_map fl_sum_Fin pop_mean_def)

lemma np_std_Fin:
  "np_std (map (map Fin) rs) =
     (if samples rs = [] then NaN else Fin (pop_std (samples rs)))"
proof (cases "samples rs = []")
  case True
  then show ?thesis
    by (simp add: np_std_def np_mean_def samples_map)
next
  case False
  define m where "m = pop_mean (samples rs)"
  have mean: "np_mean (map (map Fin) rs) = Fin m"
    using False by (simp add: np_mean_Fin m_def)
  have sq: "map (map (\<lambda>x. let d = fl_sub x (Fin m) in fl_mul d d)) (map (map Fin) rs)
      = map (map Fin) (map (map (\<lambda>x. (x - m)\<^sup>2)) rs)"
    by (simp add: fl_sub_def power2_eq_square o_def)
  have ne: "samples (map (map (\<lambda>x. (x - m)\<^sup>2)) rs) \<noteq> []"
    using False by (simp add: samples_map)
  have nn: "0 \<le> pop_mean (map (\<lambda>x. (x - m)\<^sup>2) (samples rs))"
    unfolding pop_mean_def by (intro divide_nonneg_nonneg sum_list_nonneg) auto
  have "np_std (map (map Fin) rs) =
      fl_sqrt (np_mean (map (map Fin) (map (map (\<lambda>x. (x - m)\<^sup>2)) rs)))"
    unfolding np_std_def mean sq ..
  also have "\<dots> = fl_sqrt (Fin (pop_mean (map (\<lambda>x. (x - m)\<^sup>2) (samples rs))))"
    using ne by (simp only: np_mean_Fin samples_map if_False)
  also have "\<dots> = Fin (sqrt (pop_mean (map (\<lambda>x. (x - m)\<^sup>2) (samples rs))))"
    using nn by simp
  also have "\<dots> = Fin (pop_std (samples rs))"
    by (simp add: pop_std_def pop_mean_def m_def)
  finally show ?thesis using False by simp
qed

lemma pop_mean_const:
  assumes "xs \<noteq> []" "\<forall>x\<in>set xs. x = k"
  shows "pop_mean xs = k"
proof -
  have "xs = replicate (length xs) k"
    using assms(2) by (simp add: replicate_length_same)
  then have "sum_list xs = real (length xs) * k"
    by (metis sum_list_replicate)
  with assms(1) show ?thesis by (simp add: pop_mean_def)
qed

lemma sum_sq_const: "\<forall>x\<in>set xs. x = k \<Longrightarrow> (\<Sum>x\<leftarrow>xs. (x - k)\<^sup>2) = (0::real)"
  by (induction xs) simp_all

lemma pop_std_const:
  assumes "xs \<noteq> []" "\<forall>x\<in>set xs. x = k"
  shows "pop_std xs = 0"
proof -
  have "pop_mean xs = k" using assms by (rule pop_mean_const)
  then show ?thesis
    using sum_sq_const [OF assms(2)] by (simp add: pop_std_def)
qed

lemma image_stats_Some:
  "has_pixels img \<Longrightarrow> image_stats img =
     Some (np_mean (plane_of ChL img), np_std (plane_of ChL img),
           np_mean (plane_of ChA img), np_std (plane_of ChA img),
           np_mean (plane_of ChB img), np_std (plane_of ChB img))"
  by (simp add: image_stats_def cv_split_def)


text \<open>For the evaluation of the two functions on images written out in full.\<close>

lemma sqrt_quarter: "sqrt (1 / 4) = 1 / 2"
  by (rule real_sqrt_unique) (simp_all add: power2_eq_square)

lemmas eval_defs = has_pixels_def samples_def plane_of_def cv_split_def image_stats_def
  np_mean_def np_std_def np_sub_def np_add_def np_scale_def fl_sub_def remap_planes_def

lemma chan_float_pixel: "chan c (float_pixel p) = u8_to_fl (chan c p)"
  by (cases c; cases p) (simp_all add: float_pixel_def)

lemma plane_of_lab:
  "plane_of c (map (map (float_pixel \<circ> conv)) img) =
     map (map Fin) (map (map (\<lambda>p. real (unat (chan c (conv p))))) img)"
  by (simp add: plane_of_def chan_float_pixel u8_to_fl_def o_def)

lemma plane_of_float:
  "plane_of c (astype_float32 img) =
     map (map Fin) (map (map (\<lambda>p. real (unat (chan c p)))) img)"
  by (simp add: plane_of_def astype_float32_def chan_float_pixel u8_to_fl_def o_def)

lemma stats_constant:
  assumes "has_pixels img" "\<forall>p\<in>set (samples img). chan c p = k"
  shows "np_mean (plane_of c (astype_float32 img)) = u8_to_fl k"
    and "np_std (plane_of c (astype_float32 img)) = Fin 0"
proof -
  let ?rs = "map (map (\<lambda>p. real (unat (chan c p)))) img"
  have ne: "samples ?rs \<noteq> []"
    using assms(1) by (simp add: samples_map has_pixels_def)
  have all: "\<forall>x\<in>set (samples ?rs). x = real (unat k)"
    using assms(2) by (auto simp: samples_map)
  have m: "pop_mean (samples ?rs) = real (unat k)" and s: "pop_std (samples ?rs) = 0"
    using ne all by (rule pop_mean_const, rule pop_std_const)
  show "np_mean (plane_of c (astype_float32 img)) = u8_to_fl k"
    using ne unfolding plane_of_float np_mean_Fin u8_to_fl_def by (simp only: m if_False)
  show "np_std (plane_of c (astype_float32 img)) = Fin 0"
    using ne unfolding plane_of_float np_std_Fin by (simp only: s if_False)
qed





subsection \<open>The pipeline, pixel by pixel\<close>

text \<open>
  With the statistics of the two Lab images in hand, every statement of
  \<^verbatim>\<open>color_transfer\<close> works on each sample by itself, so the result is one function
  mapped over the target.
\<close>

lemma remap_planes_Some:
  assumes "has_pixels source" "has_pixels target"
  shows "remap_planes source target =
     Some (map (map (remap_chan ChL source target)) (plane_of ChL target),
           map (map (remap_chan ChA source target)) (plane_of ChA target),
           map (map (remap_chan ChB source target)) (plane_of ChB target))"
  using assms
  by (simp add: remap_planes_def image_stats_Some cv_split_def np_sub_def np_scale_def
      np_add_def remap_chan_def remap_val_def o_def)

lemma remap_planes_chan:
  assumes "has_pixels source" "has_pixels target"
  shows "\<exists>P. remap_planes source target = Some P \<and>
           (\<forall>c. chan c P = map (map (remap_chan c source target)) (plane_of c target))"
proof -
  have "chan c (map (map (remap_chan ChL source target)) (plane_of ChL target),
           map (map (remap_chan ChA source target)) (plane_of ChA target),
           map (map (remap_chan ChB source target)) (plane_of ChB target))
        = map (map (remap_chan c source target)) (plane_of c target)" for c
    by (cases c) simp_all
  then show ?thesis
    using remap_planes_Some [OF assms] by simp
qed

lemma map_length_map_map: "map length (map (map f) t) = map length t"
  by (induction t) simp_all

lemma merge_row_map:
  "merge_row (map f r) (map g r) (map h r) = map (\<lambda>p. (f p, g p, h p)) r"
  by (induction r) (simp_all add: merge_row_def)

lemma cv_merge_map:
  assumes "has_pixels t"
  shows "cv_merge (map (map f) t, map (map g) t, map (map h) t) =
           Some (map (map (\<lambda>p. (f p, g p, h p))) t)"
proof -
  have "map (\<lambda>(rl, ra, rb). merge_row rl ra rb)
          (zip (map (map f) t) (zip (map (map g) t) (map (map h) t)))
        = map (map (\<lambda>p. (f p, g p, h p))) t"
    by (induction t) (simp_all add: merge_row_map)
  moreover have "has_pixels (map (map f) t)"
    using assms by (simp add: has_pixels_def samples_map)
  ultimately show ?thesis by (simp add: cv_merge_def map_length_map_map)
qed

lemma clip_merge_Some:
  assumes "has_pixels source" "has_pixels target"
  shows "\<exists>P. remap_planes source target = Some P \<and>
          cv_merge (clip_planes P) = Some (map (map (out_pixel source target)) target)"
proof -
  let ?f = "\<lambda>c p. clip_val 0 255 (remap_chan c source target (chan c p))"
  have "clip_planes (map (map (remap_chan ChL source target)) (plane_of ChL target),
           map (map (remap_chan ChA source target)) (plane_of ChA target),
           map (map (remap_chan ChB source target)) (plane_of ChB target))
      = (map (map (?f ChL)) target, map (map (?f ChA)) target, map (map (?f ChB)) target)"
    by (simp add: clip_planes_def np_clip_def plane_of_def o_def)
  moreover have "cv_merge (map (map (?f ChL)) target, map (map (?f ChA)) target, map (map (?f ChB)) target)
      = Some (map (map (out_pixel source target)) target)"
    using cv_merge_map [OF assms(2), of "?f ChL" "?f ChA" "?f ChB"]
    by (simp add: out_pixel_def [abs_def])
  ultimately show ?thesis
    using remap_planes_Some [OF assms] by simp
qed

lemma bgr2lab_float_Some:
  "has_pixels img \<Longrightarrow>
     bgr2lab_float conv img = Some (map (map (float_pixel \<circ> conv)) img)"
  by (simp add: bgr2lab_float_def cvtColor_def astype_float32_def)

lemma color_transfer_pixelwise:
  assumes "has_pixels source" "has_pixels target"
  shows "color_transfer bgr2lab lab2bgr nan_cast source target =
     Some (map (map (\<lambda>p. lab2bgr (cast_pixel nan_cast
        (out_pixel (map (map (float_pixel \<circ> bgr2lab)) source)
                   (map (map (float_pixel \<circ> bgr2lab)) target)
                   (float_pixel (bgr2lab p)))))) target)"
proof -
  let ?S = "map (map (float_pixel \<circ> bgr2lab)) source"
  let ?T = "map (map (float_pixel \<circ> bgr2lab)) target"
  have hs: "has_pixels ?S" and ht: "has_pixels ?T"
    using assms by (simp_all add: has_pixels_map)
  obtain P where P: "remap_planes ?S ?T = Some P"
    "cv_merge (clip_planes P) = Some (map (map (out_pixel ?S ?T)) ?T)"
    using clip_merge_Some [OF hs ht] by blast
  have "has_pixels (astype_uint8 nan_cast (map (map (out_pixel ?S ?T)) ?T))"
    using assms(2) by (simp add: astype_uint8_def has_pixels_map)
  then show ?thesis
    using assms P
    by (simp add: color_transfer_def bgr2lab_float_Some cvtColor_def astype_uint8_def o_def)
qed


text \<open>
  C8. For a source and a target with at least one pixel each, \<^verbatim>\<open>color_transfer\<close>
  returns an image with as many rows as the target and, row by row, as many pixels;
  the source's shape plays no part.
\<close>

theorem color_transfer_shape:
  assumes "has_pixels source" "has_pixels target"
  shows "\<exists>out. color_transfer bgr2lab lab2bgr nan_cast source target = Some out \<and>
           length out = length target \<and> map length out = map length target"
  using color_transfer_pixelwise [OF assms] by (simp add: map_length_map_map)

theorem color_transfer_shape_witness:
  "has_pixels shape_source \<and> has_pixels shape_target \<and>
   (\<exists>out. color_transfer (\<lambda>p. p) (\<lambda>p. p) 0 shape_source shape_target = Some out \<and>
      length out = 2 \<and> map length out = [2, 2])"
proof -
  have s: "has_pixels shape_source" and t: "has_pixels shape_target"
    by (simp_all add: shape_source_def shape_target_def has_pixels_def samples_def)
  have "length shape_target = 2" "map length shape_target = [2, 2]"
    by (simp_all add: shape_target_def)
  then show ?thesis
    using s t color_transfer_shape [OF s t, of "\<lambda>p. p" "\<lambda>p. p" 0] by simp
qed

subsection \<open>Samples, clipping and the cast\<close>

lemma remap_chan_Fin:
  assumes "plane_of c target = map (map Fin) ts" "plane_of c source = map (map Fin) ss"
    and "samples ts \<noteq> []" "samples ss \<noteq> []" "pop_std (samples ss) \<noteq> 0"
  shows "remap_chan c source target (Fin v) =
     Fin ((v - pop_mean (samples ts)) * (pop_std (samples ts) / pop_std (samples ss))
          + pop_mean (samples ss))"
  using assms
  by (simp add: remap_chan_def remap_val_def np_mean_Fin np_std_Fin fl_sub_def mult.commute)



lemma fl_to_u8_in_range:
  assumes "0 \<le> r" "r \<le> 255"
  shows "int (unat (fl_to_u8 n (Fin r))) = \<lfloor>r\<rfloor>"
proof -
  have "0 \<le> \<lfloor>r\<rfloor>" "\<lfloor>r\<rfloor> < 256"
    using assms by (simp_all add: floor_less_iff)
  then have "uint (word_of_int \<lfloor>r\<rfloor> :: u8) = \<lfloor>r\<rfloor>"
    by (simp add: uint_word_of_int take_bit_int_eq_self)
  then show ?thesis using assms(1) by (simp add: trunc_def)
qed

lemma trunc_of_nat: "trunc (real k) = int k"
proof -
  have "\<lfloor>real k\<rfloor> = int k" by (rule floor_of_nat)
  moreover have "0 \<le> real k" by simp
  ultimately show ?thesis by (simp only: trunc_def if_True)
qed

lemma fl_to_u8_u8: "fl_to_u8 n (u8_to_fl w) = w"
  unfolding u8_to_fl_def fl_to_u8.simps trunc_of_nat by simp

lemma bgr2lab_float_SomeD:
  assumes "bgr2lab_float conv img = Some S"
  shows "has_pixels img \<and> S = map (map (float_pixel \<circ> conv)) img"
  using assms
  by (auto simp: bgr2lab_float_def cvtColor_def astype_float32_def split: if_splits)


lemma chan_cast_pixel: "chan c (cast_pixel n p) = fl_to_u8 n (chan c p)"
  by (cases c; cases p) (simp_all add: cast_pixel_def)



subsection \<open>Clipping\<close>





subsection \<open>The cast to 8 bits\<close>

lemma same_shape_nth:
  assumes "map length a = map length l" "i < length l"
  shows "i < length a \<and> length (a ! i) = length (l ! i)"
proof -
  from assms(1) have "length (map length a) = length (map length l)" by simp
  then have len: "length a = length l" by simp
  with assms(2) have "map length a ! i = length (a ! i)" "map length l ! i = length (l ! i)"
    by simp_all
  with assms(1) len assms(2) show ?thesis by simp
qed

lemma has_pixels_nth: "i < length t \<Longrightarrow> j < length (t ! i) \<Longrightarrow> has_pixels t"
proof -
  assume "i < length t" "j < length (t ! i)"
  then have "t ! i \<in> set t" "t ! i \<noteq> []" by auto
  then show ?thesis by (auto simp: has_pixels_def samples_def)
qed

lemma cv_merge_nth:
  assumes "has_pixels l" "map length a = map length l" "map length b = map length l"
    and "i < length l" "j < length (l ! i)"
  shows "\<exists>M. cv_merge (l, a, b) = Some M \<and> i < length M \<and> j < length (M ! i) \<and>
           M ! i ! j = (l ! i ! j, a ! i ! j, b ! i ! j)"
proof -
  let ?M = "map (\<lambda>(rl, ra, rb). merge_row rl ra rb) (zip l (zip a b))"
  note sa = same_shape_nth [OF assms(2,4)] and sb = same_shape_nth [OF assms(3,4)]
  have i: "i < length ?M" using assms(4) sa sb by simp
  have row: "?M ! i = zip (l ! i) (zip (a ! i) (b ! i))"
    using assms(4) sa sb by (simp add: merge_row_def)
  have "j < length (?M ! i)" "?M ! i ! j = (l ! i ! j, a ! i ! j, b ! i ! j)"
    using assms(5) sa sb by (simp_all add: row)
  with i assms(1-3) show ?thesis by (simp add: cv_merge_def)
qed

lemma clip_then_cast:
  "(case v of
      Fin r \<Rightarrow> int (unat (fl_to_u8 n (clip_val 0 255 v))) = \<lfloor>max 0 (min 255 r)\<rfloor>
    | PInf \<Rightarrow> fl_to_u8 n (clip_val 0 255 v) = 255
    | NInf \<Rightarrow> fl_to_u8 n (clip_val 0 255 v) = 0
    | NaN \<Rightarrow> fl_to_u8 n (clip_val 0 255 v) = n)"
proof (cases v)
  case (Fin r)
  have c: "clip_val 0 255 (Fin r) = Fin (max 0 (min 255 r))"
    by (simp add: clip_val_def max_def min_def)
  have "0 \<le> max 0 (min 255 r)" "max 0 (min 255 r) \<le> 255" by simp_all
  then have "int (unat (fl_to_u8 n (Fin (max 0 (min 255 r))))) = \<lfloor>max 0 (min 255 r)\<rfloor>"
    by (rule fl_to_u8_in_range)
  with Fin c show ?thesis by simp
next
  case PInf
  then show ?thesis by (simp add: clip_val_def trunc_def)
next
  case NInf
  then show ?thesis by (simp add: clip_val_def trunc_def)
next
  case NaN
  then show ?thesis by (simp add: clip_val_def)
qed

text \<open>
  C10. The last statements of \<^verbatim>\<open>color_transfer\<close> clip the three planes, merge them,
  cast the merged image with \<^verbatim>\<open>astype("uint8")\<close> and convert it back; none of them
  rounds. Whatever planes \<open>l\<close>, \<open>a\<close>, \<open>b\<close> of one shape reach them, at every position
  and in every channel the 8-bit value that the cast produces is: for a finite sample
  \<open>r\<close>, the whole number \<open>\<lfloor>r'\<rfloor>\<close> of the clipped sample \<open>r' = max 0 (min 255 r)\<close>,
  the fraction dropped, not rounded, and nothing reduced modulo 256; 255 for
  \<open>+inf\<close> and 0 for \<open>-inf\<close>; for NaN, which passes the clip, whatever the platform
  makes of it. The cast has no failing branch: the result is always there.
\<close>

theorem cast_truncates_clipped:
  assumes "has_pixels l" "map length a = map length l" "map length b = map length l"
    and "i < length l" "j < length (l ! i)"
  shows "color_transfer bgr2lab lab2bgr nan_cast source target =
           Option.bind (bgr2lab_float bgr2lab source) (\<lambda>S.
           Option.bind (bgr2lab_float bgr2lab target) (\<lambda>T.
           Option.bind (remap_planes S T) (\<lambda>P.
           Option.bind (cv_merge (clip_planes P)) (\<lambda>M.
             cvtColor lab2bgr (astype_uint8 nan_cast M))))) \<and>
         (\<exists>M. cv_merge (clip_planes (l, a, b)) = Some M \<and>
            cvtColor lab2bgr (astype_uint8 nan_cast M)
              = Some (map (map lab2bgr) (astype_uint8 nan_cast M)) \<and>
            (case chan c (l, a, b) ! i ! j of
               Fin r \<Rightarrow> int (unat (chan c (astype_uint8 nan_cast M ! i ! j)))
                          = \<lfloor>max 0 (min 255 r)\<rfloor>
             | PInf \<Rightarrow> chan c (astype_uint8 nan_cast M ! i ! j) = 255
             | NInf \<Rightarrow> chan c (astype_uint8 nan_cast M ! i ! j) = 0
             | NaN \<Rightarrow> chan c (astype_uint8 nan_cast M ! i ! j) = nan_cast))"
proof -
  let ?l = "np_clip l 0 255" and ?a = "np_clip a 0 255" and ?b = "np_clip b 0 255"
  have tie: "color_transfer bgr2lab lab2bgr nan_cast source target =
           Option.bind (bgr2lab_float bgr2lab source) (\<lambda>S.
           Option.bind (bgr2lab_float bgr2lab target) (\<lambda>T.
           Option.bind (remap_planes S T) (\<lambda>P.
           Option.bind (cv_merge (clip_planes P)) (\<lambda>M.
             cvtColor lab2bgr (astype_uint8 nan_cast M)))))"
    by (simp add: color_transfer_def)
  have len: "map length (np_clip p 0 255) = map length p" for p
    unfolding np_clip_def by (rule map_length_map_map)
  have shape: "has_pixels ?l" "map length ?a = map length ?l" "map length ?b = map length ?l"
    "i < length ?l" "j < length (?l ! i)"
    using assms by (simp_all add: len) (simp_all add: np_clip_def has_pixels_map)
  obtain M where M: "cv_merge (?l, ?a, ?b) = Some M" "i < length M" "j < length (M ! i)"
    "M ! i ! j = (?l ! i ! j, ?a ! i ! j, ?b ! i ! j)"
    using cv_merge_nth [OF shape] by blast
  note sa = same_shape_nth [OF assms(2,4)] and sb = same_shape_nth [OF assms(3,4)]
  have px: "M ! i ! j = (clip_val 0 255 (l ! i ! j), clip_val 0 255 (a ! i ! j),
      clip_val 0 255 (b ! i ! j))"
    using M(4) assms(4,5) sa sb by (simp add: np_clip_def)
  have cl: "cv_merge (clip_planes (l, a, b)) = Some M"
    using M(1) by (simp add: clip_planes_def)
  have "has_pixels (astype_uint8 nan_cast M)"
    using has_pixels_nth [OF M(2,3)] by (simp add: astype_uint8_def has_pixels_map)
  then have cv: "cvtColor lab2bgr (astype_uint8 nan_cast M)
      = Some (map (map lab2bgr) (astype_uint8 nan_cast M))"
    by (simp add: cvtColor_def)
  have "astype_uint8 nan_cast M ! i ! j = cast_pixel nan_cast (M ! i ! j)"
    using M(2,3) by (simp add: astype_uint8_def)
  then have u: "chan c (astype_uint8 nan_cast M ! i ! j)
      = fl_to_u8 nan_cast (clip_val 0 255 (chan c (l, a, b) ! i ! j))"
    by (cases c) (simp_all add: px chan_cast_pixel)
  show ?thesis
    using tie cl cv clip_then_cast [where v = "chan c (l, a, b) ! i ! j" and n = nan_cast]
    by (auto simp: u split: fl.splits)
qed

theorem cast_truncates_clipped_witness:
  "has_pixels [[Fin (2547 / 10), NaN]] \<and>
   map length [[Fin (- 3), Fin 300]] = map length [[Fin (2547 / 10), NaN]] \<and>
   map length [[PInf, NInf]] = map length [[Fin (2547 / 10), NaN]] \<and>
   (\<exists>M. cv_merge (clip_planes cast_planes) = Some M \<and>
      int (unat (chan ChL (astype_uint8 0 M ! 0 ! 0))) = 254 \<and>
      int (unat (chan ChA (astype_uint8 0 M ! 0 ! 0))) = 0 \<and>
      int (unat (chan ChA (astype_uint8 0 M ! 0 ! 1))) = 255 \<and>
      chan ChB (astype_uint8 0 M ! 0 ! 0) = 255 \<and>
      chan ChB (astype_uint8 0 M ! 0 ! 1) = 0 \<and>
      chan ChL (astype_uint8 0 M ! 0 ! 1) = 0)"
proof -
  let ?l = "[[Fin (2547 / 10), NaN]]" and ?a = "[[Fin (- 3), Fin 300]]"
    and ?b = "[[PInf, NInf]]"
  have h: "has_pixels ?l" "map length ?a = map length ?l" "map length ?b = map length ?l"
    by (simp_all add: has_pixels_def samples_def)
  have i: "0 < length ?l" and j0: "0 < length (?l ! 0)" and j1: "1 < length (?l ! 0)"
    by simp_all
  from cast_truncates_clipped [OF h i j0, of "\<lambda>p. p" "\<lambda>p. p" 0 "[]" "[]" ChL]
  obtain M where M: "cv_merge (clip_planes (?l, ?a, ?b)) = Some M"
    "int (unat (chan ChL (astype_uint8 0 M ! 0 ! 0))) = 254"
    by auto
  from cast_truncates_clipped [OF h i j0, of "\<lambda>p. p" "\<lambda>p. p" 0 "[]" "[]" ChA] M(1)
  have a0: "int (unat (chan ChA (astype_uint8 0 M ! 0 ! 0))) = 0" by auto
  from cast_truncates_clipped [OF h i j1, of "\<lambda>p. p" "\<lambda>p. p" 0 "[]" "[]" ChA] M(1)
  have a1: "int (unat (chan ChA (astype_uint8 0 M ! 0 ! 1))) = 255" by auto
  from cast_truncates_clipped [OF h i j0, of "\<lambda>p. p" "\<lambda>p. p" 0 "[]" "[]" ChB] M(1)
  have b0: "chan ChB (astype_uint8 0 M ! 0 ! 0) = 255" by auto
  from cast_truncates_clipped [OF h i j1, of "\<lambda>p. p" "\<lambda>p. p" 0 "[]" "[]" ChB] M(1)
  have b1: "chan ChB (astype_uint8 0 M ! 0 ! 1) = 0" by auto
  from cast_truncates_clipped [OF h i j1, of "\<lambda>p. p" "\<lambda>p. p" 0 "[]" "[]" ChL] M(1)
  have n: "chan ChL (astype_uint8 0 M ! 0 ! 1) = 0" by auto
  from M a0 a1 b0 b1 n h show ?thesis
    by (simp add: cast_planes_def)
qed

subsection \<open>The scale factor\<close>

text \<open>
  C1. The claim has the source's standard deviation over the target's as the scale
  factor. On a target with mean 101 and standard deviation 1 and a source with mean
  102 and standard deviation 2 in every channel, the notebook scales by \<open>1/2\<close> and
  returns the samples 101.5 and 102.5; the claim's formula gives 100 and 104. The
  notebook's result has the source's mean, 102, and the standard deviation \<open>1/2\<close>,
  not the source's 2.
\<close>

theorem remap_scale_evaluated:
  "image_stats scale_source = Some (Fin 102, Fin 2, Fin 102, Fin 2, Fin 102, Fin 2) \<and>
   image_stats scale_target = Some (Fin 101, Fin 1, Fin 101, Fin 1, Fin 101, Fin 1) \<and>
   remap_planes scale_source scale_target =
     Some ([[Fin (203 / 2), Fin (205 / 2)]], [[Fin (203 / 2), Fin (205 / 2)]],
           [[Fin (203 / 2), Fin (205 / 2)]]) \<and>
   np_mean [[Fin (203 / 2), Fin (205 / 2)]] = Fin 102 \<and>
   np_std [[Fin (203 / 2), Fin (205 / 2)]] = Fin (1 / 2) \<and>
   spec_remap 100 101 1 102 2 = 100 \<and> spec_remap 102 101 1 102 2 = 104"
  by (simp add: eval_defs scale_source_def scale_target_def spec_remap_def sqrt_quarter)

subsection \<open>A standard deviation of exactly 0\<close>

lemma pop_std_zero_const:
  assumes "xs \<noteq> []" "pop_std xs = 0"
  shows "\<forall>x\<in>set xs. x = pop_mean xs"
proof -
  let ?sq = "map (\<lambda>x. (x - pop_mean xs)\<^sup>2) xs"
  from assms have "sum_list ?sq = 0"
    by (simp add: pop_std_def)
  moreover have "\<And>y. y \<in> set ?sq \<Longrightarrow> 0 \<le> y" by auto
  ultimately have z: "\<forall>y\<in>set ?sq. y = 0"
    using sum_list_nonneg_eq_0_iff [of ?sq] by blast
  show ?thesis
  proof
    fix x assume "x \<in> set xs"
    then have "(x - pop_mean xs)\<^sup>2 \<in> set ?sq" by simp
    with z have "(x - pop_mean xs)\<^sup>2 = 0" by blast
    then show "x = pop_mean xs" by simp
  qed
qed

lemma both_constant_nan:
  assumes "np_std (plane_of c target) = Fin 0" "np_std (plane_of c source) = Fin 0"
  shows "remap_chan c source target v = NaN"
  by (simp add: remap_chan_def remap_val_def assms)

text \<open>
  C2, as the notebook has it. There is no fallback for a standard deviation of 0: the
  scale factor is the plain quotient of the two standard deviations. For 8-bit Lab
  images of at most 65793 pixels (no sum is rounded) whose channel \<open>c\<close> is constant in
  the target and constant in the source, both standard deviations are exactly 0, the
  quotient is \<open>0/0\<close>, NaN, whichever of the two is divided by the other, and every
  remapped sample of channel \<open>c\<close> is NaN before clipping.
\<close>

theorem zero_std_no_fallback:
  assumes "has_pixels source8" "has_pixels target8"
    and "length (samples source8) * 255 < 2 ^ 24" "length (samples target8) * 255 < 2 ^ 24"
    and "\<forall>p\<in>set (samples source8). chan c p = ks"
    and "\<forall>p\<in>set (samples target8). chan c p = kt"
  shows "np_std (plane_of c (astype_float32 target8)) = Fin 0 \<and>
         np_std (plane_of c (astype_float32 source8)) = Fin 0 \<and>
         fl_div (np_std (plane_of c (astype_float32 target8)))
                (np_std (plane_of c (astype_float32 source8))) = NaN \<and>
         fl_div (np_std (plane_of c (astype_float32 source8)))
                (np_std (plane_of c (astype_float32 target8))) = NaN \<and>
         (\<exists>P. remap_planes (astype_float32 source8) (astype_float32 target8) = Some P \<and>
              samples (chan c P) \<noteq> [] \<and> (\<forall>v\<in>set (samples (chan c P)). v = NaN))"
proof -
  let ?S = "astype_float32 source8" and ?T = "astype_float32 target8"
  have zs: "np_std (plane_of c ?S) = Fin 0"
    using assms(1,5) by (rule stats_constant(2))
  have zt: "np_std (plane_of c ?T) = Fin 0"
    using assms(2,6) by (rule stats_constant(2))
  have hp: "has_pixels ?S" "has_pixels ?T"
    using assms(1,2) by (simp_all add: astype_float32_def has_pixels_map)
  obtain P where P: "remap_planes ?S ?T = Some P"
    "chan c P = map (map (remap_chan c ?S ?T)) (plane_of c ?T)"
    using remap_planes_chan [OF hp] by blast
  have nan: "remap_chan c ?S ?T v = NaN" for v
    using zt zs by (rule both_constant_nan)
  have "samples (chan c P) \<noteq> []"
    using hp(2) by (simp add: P(2) samples_map plane_of_def has_pixels_def)
  moreover have "\<forall>v\<in>set (samples (chan c P)). v = NaN"
    by (auto simp: P(2) samples_map nan)
  ultimately show ?thesis
    using P(1) by (simp add: zs zt)
qed

theorem zero_std_no_fallback_witness:
  "has_pixels flat_source8 \<and> has_pixels flat_target8 \<and>
   length (samples flat_source8) * 255 < 2 ^ 24 \<and>
   length (samples flat_target8) * 255 < 2 ^ 24 \<and>
   map (chan ChL) (samples flat_source8) = [7, 7] \<and>
   map (chan ChL) (samples flat_target8) = [5, 5] \<and>
   (\<exists>P. remap_planes (astype_float32 flat_source8) (astype_float32 flat_target8) = Some P \<and>
      samples (chan ChL P) \<noteq> [] \<and> list_all (\<lambda>v. v = NaN) (samples (chan ChL P)))"
proof -
  have h: "has_pixels flat_source8" "has_pixels flat_target8"
    and n: "length (samples flat_source8) * 255 < 2 ^ 24"
      "length (samples flat_target8) * 255 < 2 ^ 24"
    and m: "map (chan ChL) (samples flat_source8) = [7, 7]"
      "map (chan ChL) (samples flat_target8) = [5, 5]"
    by (simp_all add: flat_source8_def flat_target8_def has_pixels_def samples_def)
  have c: "\<forall>p\<in>set (samples flat_source8). chan ChL p = 7"
    "\<forall>p\<in>set (samples flat_target8). chan ChL p = 5"
    by (simp_all add: flat_source8_def flat_target8_def samples_def)
  from zero_std_no_fallback [OF h n c] obtain P where
    "remap_planes (astype_float32 flat_source8) (astype_float32 flat_target8) = Some P"
    "samples (chan ChL P) \<noteq> []" "\<forall>v\<in>set (samples (chan ChL P)). v = NaN"
    by blast
  then have "\<exists>P. remap_planes (astype_float32 flat_source8) (astype_float32 flat_target8)
        = Some P \<and>
      samples (chan ChL P) \<noteq> [] \<and> list_all (\<lambda>v. v = NaN) (samples (chan ChL P))"
    by (auto simp: list_all_iff)
  with h n m show ?thesis by blast
qed

text \<open>
  So the claim fails on a target and a source of one colour each: every remapped
  sample is NaN, where the claim has the source's mean, 7.
\<close>

theorem zero_std_both_counterexample:
  "has_pixels flat_source \<and> has_pixels flat_target \<and>
   np_std (plane_of ChL flat_target) = Fin 0 \<and>
   np_mean (plane_of ChL flat_source) = Fin 7 \<and>
   fl_div (np_std (plane_of ChL flat_target)) (np_std (plane_of ChL flat_source)) = NaN \<and>
   remap_planes flat_source flat_target
     = Some ([[NaN, NaN]], [[NaN, NaN]], [[NaN, NaN]])"
  by (simp add: flat_source_def flat_target_def eval_defs)

subsection \<open>Images of one colour\<close>

lemma uniform_map: "map (map f) (uniform h w p) = uniform h w (f p)"
  by (simp add: uniform_def)

lemma samples_uniform: "samples (uniform h w p) = replicate (h * w) p"
  unfolding samples_def uniform_def
  by (induction h) (simp_all add: replicate_add)

lemma has_pixels_uniform: "has_pixels (uniform h w p) \<longleftrightarrow> 0 < h \<and> 0 < w"
  by (simp add: has_pixels_def samples_uniform)

lemma np_std_uniform:
  assumes "0 < h" "0 < w" "h * w * 255 < 2 ^ 24"
  shows "np_std (plane_of c (map (map (float_pixel \<circ> conv)) (uniform h w p))) = Fin 0"
proof -
  let ?r = "real (unat (chan c (conv p)))"
  have ne: "samples (uniform h w ?r) \<noteq> []"
    using assms(1,2) by (simp add: samples_uniform)
  have "\<forall>x\<in>set (samples (uniform h w ?r)). x = ?r"
    by (simp add: samples_uniform)
  then have "pop_std (samples (uniform h w ?r)) = 0"
    using ne by (intro pop_std_const)
  then have "np_std (map (map Fin) (uniform h w ?r)) = Fin 0"
    using ne by (simp only: np_std_Fin if_False)
  moreover have "plane_of c (map (map (float_pixel \<circ> conv)) (uniform h w p))
      = map (map Fin) (uniform h w ?r)"
    by (simp add: plane_of_def uniform_map chan_float_pixel u8_to_fl_def)
  ultimately show ?thesis by simp
qed

lemma uniform_pair_transfer:
  assumes "0 < hs" "0 < ws" "0 < h" "0 < w"
    and "hs * ws * 255 < 2 ^ 24" "h * w * 255 < 2 ^ 24"
  shows "color_transfer bgr2lab lab2bgr nan_cast (uniform hs ws q) (uniform h w p)
           = Some (uniform h w (lab2bgr (nan_cast, nan_cast, nan_cast)))"
proof -
  let ?S = "map (map (float_pixel \<circ> bgr2lab)) (uniform hs ws q)"
  let ?T = "map (map (float_pixel \<circ> bgr2lab)) (uniform h w p)"
  have "remap_chan c ?S ?T v = NaN" for c v
    by (intro both_constant_nan np_std_uniform assms)
  then have "out_pixel ?S ?T x = (NaN, NaN, NaN)" for x
    by (simp add: out_pixel_def clip_val_def)
  then show ?thesis
    using color_transfer_pixelwise [of "uniform hs ws q" "uniform h w p" bgr2lab lab2bgr nan_cast]
      assms
    by (simp add: has_pixels_uniform uniform_map cast_pixel_def)
qed

text \<open>
  C3, as the notebook has it. For the \<open>2 \<times> 2\<close> target of colour \<open>(100, 100, 100)\<close>
  and the \<open>2 \<times> 2\<close> source of colour RGB \<open>(200, 50, 50)\<close>, whatever the two colour
  conversions are: every standard deviation is 0, every scale factor is \<open>0/0\<close>, the
  three planes are NaN throughout before clipping, and the result is the uniform
  \<open>2 \<times> 2\<close> image of the display-space conversion of the Lab triple \<open>(n, n, n)\<close>,
  \<open>n\<close> being the 8-bit value the platform casts NaN to. The source's colour does
  not enter the result.
\<close>

theorem flat_pair_transfer:
  "color_transfer bgr2lab lab2bgr nan_cast flat_rgb_source flat_rgb_target
     = Some (uniform 2 2 (lab2bgr (nan_cast, nan_cast, nan_cast))) \<and>
   (\<exists>S T. bgr2lab_float bgr2lab flat_rgb_source = Some S \<and>
      bgr2lab_float bgr2lab flat_rgb_target = Some T \<and>
      remap_planes S T = Some (uniform 2 2 NaN, uniform 2 2 NaN, uniform 2 2 NaN))"
proof -
  let ?S = "map (map (float_pixel \<circ> bgr2lab)) flat_rgb_source"
  let ?T = "map (map (float_pixel \<circ> bgr2lab)) flat_rgb_target"
  have hp: "has_pixels flat_rgb_source" "has_pixels flat_rgb_target"
    by (simp_all add: flat_rgb_source_def flat_rgb_target_def has_pixels_uniform)
  then have hl: "has_pixels ?S" "has_pixels ?T"
    by (simp_all add: has_pixels_map)
  have nan: "remap_chan c ?S ?T = (\<lambda>v. NaN)" for c
    unfolding flat_rgb_source_def flat_rgb_target_def
    by (rule ext, intro both_constant_nan np_std_uniform) simp_all
  have "plane_of c ?T = uniform 2 2 (u8_to_fl (chan c (bgr2lab (100, 100, 100))))" for c
    by (simp add: flat_rgb_target_def uniform_map plane_of_def chan_float_pixel)
  then have "remap_planes ?S ?T = Some (uniform 2 2 NaN, uniform 2 2 NaN, uniform 2 2 NaN)"
    by (simp add: remap_planes_Some [OF hl] nan uniform_map)
  then show ?thesis
    using hp uniform_pair_transfer [of 2 2 2 2 bgr2lab lab2bgr nan_cast "(50, 50, 200)" "(100, 100, 100)"]
    by (simp add: flat_rgb_source_def flat_rgb_target_def bgr2lab_float_Some)
qed

text \<open>
  The claim has the result equal to the conversion back of the source's mean Lab
  colour, which for a source of one colour is the Lab colour of that colour. By the
  above that holds exactly when the conversion to Lab and back of the source's colour
  happens to be the conversion back of \<open>(n, n, n)\<close>, which the notebook does nothing
  to bring about: with conversions that leave a pixel as it is and NaN cast to 0 the
  result is black, not the source's colour.
\<close>

theorem flat_pair_counterexample:
  "(\<forall>bgr2lab lab2bgr nan_cast.
      (color_transfer bgr2lab lab2bgr nan_cast flat_rgb_source flat_rgb_target
         = Some (uniform 2 2 (lab2bgr (bgr2lab (50, 50, 200)))))
      = (lab2bgr (bgr2lab (50, 50, 200)) = lab2bgr (nan_cast, nan_cast, nan_cast))) \<and>
   \<not> (\<forall>bgr2lab lab2bgr nan_cast.
        color_transfer bgr2lab lab2bgr nan_cast flat_rgb_source flat_rgb_target
          = Some (uniform 2 2 (lab2bgr (bgr2lab (50, 50, 200)))))"
proof -
  have run: "color_transfer bgr2lab lab2bgr nan_cast flat_rgb_source flat_rgb_target
      = Some (uniform 2 2 (lab2bgr (nan_cast, nan_cast, nan_cast)))"
    for bgr2lab lab2bgr nan_cast
    unfolding flat_rgb_source_def flat_rgb_target_def
    by (rule uniform_pair_transfer) simp_all
  have inj: "(uniform 2 2 p = uniform 2 2 q) = (p = q)" for p q :: "u8 pixel"
    by (auto simp: uniform_def)
  have "color_transfer (\<lambda>p. p) (\<lambda>p. p) 0 flat_rgb_source flat_rgb_target
      \<noteq> Some (uniform 2 2 ((\<lambda>p. p) ((\<lambda>p. p) (50, 50, 200))))"
    by (simp add: run inj)
  then have "\<not> (\<forall>bgr2lab lab2bgr nan_cast.
        color_transfer bgr2lab lab2bgr nan_cast flat_rgb_source flat_rgb_target
          = Some (uniform 2 2 (lab2bgr (bgr2lab (50, 50, 200)))))"
    by blast
  moreover have "\<forall>bgr2lab lab2bgr nan_cast.
      (color_transfer bgr2lab lab2bgr nan_cast flat_rgb_source flat_rgb_target
         = Some (uniform 2 2 (lab2bgr (bgr2lab (50, 50, 200)))))
      = (lab2bgr (bgr2lab (50, 50, 200)) = lab2bgr (nan_cast, nan_cast, nan_cast))"
    by (auto simp: run inj)
  ultimately show ?thesis by blast
qed

subsection \<open>Transfer of an image onto itself\<close>

lemma clip_val_nat: "k \<le> 255 \<Longrightarrow> clip_val 0 255 (Fin (real k)) = Fin (real k)"
  by (simp add: clip_val_def)

lemma clip_val_u8: "clip_val 0 255 (u8_to_fl w) = u8_to_fl w"
proof -
  have "unat w < 2 ^ LENGTH(8)" by (rule unsigned_less)
  then have "unat w \<le> 255" by simp
  then show ?thesis
    unfolding u8_to_fl_def by (rule clip_val_nat)
qed

lemma cast_float_pixel: "cast_pixel n (float_pixel q) = q"
  by (cases q) (simp add: cast_pixel_def float_pixel_def fl_to_u8_u8)

lemma remap_chan_self:
  assumes "plane_of c S = map (map Fin) rs" "samples rs \<noteq> []"
    and "np_std (plane_of c S) \<noteq> Fin 0"
  shows "remap_chan c S S (Fin v) = Fin v"
proof -
  from assms have sd: "pop_std (samples rs) \<noteq> 0"
    by (simp add: np_std_Fin)
  show ?thesis
    using sd by (simp add: remap_chan_Fin [OF assms(1) assms(1) assms(2) assms(2) sd])
qed

lemma std_not_zero:
  assumes "p \<in> set (samples img)" "q \<in> set (samples img)"
    and "chan c (conv p) \<noteq> chan c (conv q)"
  shows "np_std (plane_of c (map (map (float_pixel \<circ> conv)) img)) \<noteq> Fin 0"
proof
  let ?f = "\<lambda>p. real (unat (chan c (conv p)))"
  let ?rs = "map (map ?f) img"
  assume z: "np_std (plane_of c (map (map (float_pixel \<circ> conv)) img)) = Fin 0"
  have ne: "samples ?rs \<noteq> []"
    using assms(1) by (auto simp: samples_map)
  from z have "pop_std (samples ?rs) = 0"
    using ne by (simp only: plane_of_lab np_std_Fin if_False fl.inject)
  with ne have "\<forall>x\<in>set (samples ?rs). x = pop_mean (samples ?rs)"
    by (rule pop_std_zero_const)
  moreover have "?f p \<in> set (samples ?rs)" "?f q \<in> set (samples ?rs)"
    using assms(1,2) by (simp_all add: samples_map)
  ultimately have "?f p = ?f q" by metis
  then have "unat (chan c (conv p)) = unat (chan c (conv q))"
    by (simp only: of_nat_eq_iff)
  then have "chan c (conv p) = chan c (conv q)"
    by (simp only: word_unat_eq_iff)
  with assms(3) show False by contradiction
qed

lemma self_transfer_nonzero_std:
  assumes "bgr2lab_float bgr2lab img = Some S"
    and "\<forall>c. np_std (plane_of c S) \<noteq> Fin 0"
  shows "color_transfer bgr2lab lab2bgr nan_cast img img
           = Some (map (map (\<lambda>p. lab2bgr (bgr2lab p))) img)"
proof -
  from assms(1) have hp: "has_pixels img" and S: "S = map (map (float_pixel \<circ> bgr2lab)) img"
    using bgr2lab_float_SomeD by blast+
  have "remap_chan c S S (u8_to_fl w) = u8_to_fl w" for c w
  proof -
    let ?rs = "map (map (\<lambda>p. real (unat (chan c (bgr2lab p))))) img"
    have p: "plane_of c S = map (map Fin) ?rs"
      unfolding S by (rule plane_of_lab)
    have ne: "samples ?rs \<noteq> []"
      using hp by (simp add: samples_map has_pixels_def)
    from assms(2) have "np_std (plane_of c S) \<noteq> Fin 0" by blast
    with p ne show ?thesis
      unfolding u8_to_fl_def by (rule remap_chan_self)
  qed
  then have "out_pixel S S (float_pixel q) = float_pixel q" for q
    by (cases q) (simp add: out_pixel_def float_pixel_def clip_val_u8)
  then show ?thesis
    using color_transfer_pixelwise [OF hp hp, of bgr2lab lab2bgr nan_cast]
    by (simp add: S [symmetric] cast_float_pixel)
qed

text \<open>
  C5, as the notebook has it. For an image none of whose three Lab channels is
  constant (each of L, a and b takes two different values somewhere in the image),
  every scale factor is a number other than 0 divided by itself, 1, and
  \<^verbatim>\<open>color_transfer(I, I)\<close> is, pixel by pixel, the conversion to Lab and back of \<open>I\<close>:
  the remapping, the clipping and the cast give back the 8-bit Lab image unchanged.
  How far the conversion to Lab and back moves a pixel is OpenCV's matter.
\<close>

theorem self_transfer:
  assumes "\<forall>c. \<exists>p\<in>set (samples img). \<exists>q\<in>set (samples img).
             chan c (bgr2lab p) \<noteq> chan c (bgr2lab q)"
  shows "color_transfer bgr2lab lab2bgr nan_cast img img
           = Some (map (map (\<lambda>p. lab2bgr (bgr2lab p))) img)"
proof -
  from assms obtain p where "p \<in> set (samples img)" by blast
  then have hp: "has_pixels img" by (auto simp: has_pixels_def)
  then have S: "bgr2lab_float bgr2lab img = Some (map (map (float_pixel \<circ> bgr2lab)) img)"
    by (rule bgr2lab_float_Some)
  have "np_std (plane_of c (map (map (float_pixel \<circ> bgr2lab)) img)) \<noteq> Fin 0" for c
    using assms std_not_zero [of _ img _ c bgr2lab] by blast
  then show ?thesis
    using self_transfer_nonzero_std [OF S] by blast
qed

theorem self_transfer_witness:
  "samples varied_rgb = [(0, 0, 0), (2, 2, 2)] \<and>
   color_transfer (\<lambda>p. p) (\<lambda>p. p) 0 varied_rgb varied_rgb = Some varied_rgb"
proof -
  have s: "samples varied_rgb = [(0, 0, 0), (2, 2, 2)]"
    by (simp add: varied_rgb_def samples_def)
  have d: "chan c (0, 0, 0 :: u8) \<noteq> chan c (2, 2, 2 :: u8)" for c
    by (cases c) simp_all
  have m: "(0, 0, 0) \<in> set (samples varied_rgb)" "(2, 2, 2) \<in> set (samples varied_rgb)"
    by (simp_all add: s)
  have "\<forall>c. \<exists>p\<in>set (samples varied_rgb). \<exists>q\<in>set (samples varied_rgb).
      chan c p \<noteq> chan c q"
    using d m by blast
  from self_transfer [of varied_rgb "\<lambda>p. p" "\<lambda>p. p" 0, OF this] s show ?thesis by simp
qed

text \<open>
  Without the condition the identity property fails, whatever the conversions and the
  cast of NaN are: an image of a single pixel has standard deviation 0 in every
  channel, so the result is the same pixel for the black and for the white
  \<open>1 \<times> 1\<close> image, and no pixel is within 2 of both.
\<close>

theorem self_transfer_counterexample:
  "\<not> (\<exists>bgr2lab lab2bgr nan_cast. \<forall>img. has_pixels img \<longrightarrow>
        (\<exists>out. color_transfer bgr2lab lab2bgr nan_cast img img = Some out \<and> within2 out img))"
proof
  assume "\<exists>bgr2lab lab2bgr nan_cast. \<forall>img. has_pixels img \<longrightarrow>
        (\<exists>out. color_transfer bgr2lab lab2bgr nan_cast img img = Some out \<and> within2 out img)"
  then obtain bgr2lab lab2bgr nan_cast where
    all: "\<And>img. has_pixels img \<Longrightarrow>
        \<exists>out. color_transfer bgr2lab lab2bgr nan_cast img img = Some out \<and> within2 out img"
    by blast
  obtain x y z where q: "lab2bgr (nan_cast, nan_cast, nan_cast) = (x, y, z)"
    by (cases "lab2bgr (nan_cast, nan_cast, nan_cast)")
  have t: "color_transfer bgr2lab lab2bgr nan_cast (uniform 1 1 p) (uniform 1 1 p)
        = Some (uniform 1 1 (x, y, z))" for p
    using uniform_pair_transfer [of 1 1 1 1 bgr2lab lab2bgr nan_cast p p] q by simp
  have "within2 (uniform 1 1 (x, y, z)) (uniform 1 1 (0, 0, 0))"
    using all [of "uniform 1 1 (0, 0, 0)"] t by (simp add: has_pixels_uniform)
  then have lo: "uint x \<le> 2"
    by (simp add: within2_def uniform_def close_pixel_def close_u8_def)
  have "within2 (uniform 1 1 (x, y, z)) (uniform 1 1 (255, 255, 255))"
    using all [of "uniform 1 1 (255, 255, 255)"] t by (simp add: has_pixels_uniform)
  then have "253 \<le> uint x"
    by (auto simp: within2_def uniform_def close_pixel_def close_u8_def)
  with lo show False by simp
qed

subsection \<open>The store: what a call leaves behind\<close>

text \<open>Every call on the store extends it; an in-place update does when its array is new.\<close>

lemma extends_refl: "extends h h"
  by (simp add: extends_def)

lemma extends_new:
  assumes "extends h0 h" "new_array a h = (r, h')"
  shows "extends h0 h' \<and> length h0 \<le> r \<and> r < length h'"
  using assms by (auto simp: extends_def new_array_def)

lemma extends_update:
  assumes "extends h0 h" "length h0 \<le> r"
  shows "extends h0 (h[r := a])"
  using assms by (simp add: extends_def)

lemma cvtColor_st_extends:
  assumes "extends h0 h" "cvtColor_st conv x h = Some (r, h')"
  shows "extends h0 h' \<and> length h0 \<le> r \<and> r < length h'"
  using assms unfolding cvtColor_st_def
  by (auto simp: bind_eq_Some_conv new_array_def extends_def)

lemma astype_float32_st_extends:
  assumes "extends h0 h" "astype_float32_st x h = Some (r, h')"
  shows "extends h0 h' \<and> length h0 \<le> r \<and> r < length h'"
  using assms unfolding astype_float32_st_def
  by (auto simp: bind_eq_Some_conv new_array_def extends_def)

lemma astype_uint8_st_extends:
  assumes "extends h0 h" "astype_uint8_st n x h = Some (r, h')"
  shows "extends h0 h' \<and> length h0 \<le> r \<and> r < length h'"
  using assms unfolding astype_uint8_st_def
  by (auto simp: bind_eq_Some_conv new_array_def extends_def)

lemma scale_st_extends:
  assumes "extends h0 h" "scale_st s x h = Some (r, h')"
  shows "extends h0 h' \<and> length h0 \<le> r \<and> r < length h'"
  using assms unfolding scale_st_def
  by (auto simp: bind_eq_Some_conv new_array_def extends_def)

lemma clip_st_extends:
  assumes "extends h0 h" "clip_st x lo hi h = Some (r, h')"
  shows "extends h0 h' \<and> length h0 \<le> r \<and> r < length h'"
  using assms unfolding clip_st_def
  by (auto simp: bind_eq_Some_conv new_array_def extends_def)

lemma cv_merge_st_extends:
  assumes "extends h0 h" "cv_merge_st rs h = Some (r, h')"
  shows "extends h0 h' \<and> length h0 \<le> r \<and> r < length h'"
  using assms unfolding cv_merge_st_def
  by (auto simp: bind_eq_Some_conv new_array_def extends_def split: prod.splits)

lemma cv_split_st_extends:
  assumes "extends h0 h" "cv_split_st x h = Some ((rl, ra, rb), h')"
  shows "extends h0 h' \<and> length h0 \<le> rl \<and> length h0 \<le> ra \<and> length h0 \<le> rb"
  using assms unfolding cv_split_st_def
  by (auto simp: bind_eq_Some_conv new_array_def extends_def split: prod.splits)

lemma isub_st_extends:
  assumes "extends h0 h" "length h0 \<le> r" "isub_st r s h = Some h'"
  shows "extends h0 h'"
  using assms unfolding isub_st_def
  by (auto simp: bind_eq_Some_conv intro: extends_update)

lemma iadd_st_extends:
  assumes "extends h0 h" "length h0 \<le> r" "iadd_st r s h = Some h'"
  shows "extends h0 h'"
  using assms unfolding iadd_st_def
  by (auto simp: bind_eq_Some_conv intro: extends_update)

lemma image_stats_st_extends:
  assumes "extends h0 h" "image_stats_st x h = Some (st, h')"
  shows "extends h0 h'"
  using assms unfolding image_stats_st_def
  by (auto simp: bind_eq_Some_conv split: prod.splits dest: cv_split_st_extends)


lemma extends_nth: "extends h0 h \<Longrightarrow> i < length h0 \<Longrightarrow> h ! i = h0 ! i"
  unfolding extends_def by (metis nth_take)

lemma cvtColor_st_ref: "cvtColor_st conv x h = Some y \<Longrightarrow> x < length h"
  unfolding cvtColor_st_def read_u8_def
  by (auto simp: bind_eq_Some_conv split: if_splits)

text \<open>The run on the store returns what the function on values returns.\<close>

lemma read_u8_SomeD: "read_u8 h r = Some img \<Longrightarrow> r < length h \<and> h ! r = U8 img"
  unfolding read_u8_def by (auto split: if_splits array.splits)

lemmas store_defs = cvtColor_st_def astype_float32_st_def astype_uint8_st_def cv_split_st_def
  cv_merge_st_def mean_st_def std_st_def isub_st_def iadd_st_def scale_st_def clip_st_def
  image_stats_st_def new_array_def read_u8_def read_f32_def read_plane_def

lemma color_transfer_st_refines:
  assumes "read_u8 h source = Some s" "read_u8 h target = Some t"
    and "color_transfer bgr2lab lab2bgr nan_cast s t = Some out"
  shows "\<exists>r h'. color_transfer_st bgr2lab lab2bgr nan_cast source target h = Some (r, h') \<and>
           read_u8 h' r = Some out"
proof -
  from assms(3) obtain Sf Tf P M where
    a1: "bgr2lab_float bgr2lab s = Some Sf" and a2: "bgr2lab_float bgr2lab t = Some Tf" and
    a3: "remap_planes Sf Tf = Some P" and a4: "cv_merge (clip_planes P) = Some M" and
    a5: "cvtColor lab2bgr (astype_uint8 nan_cast M) = Some out"
    unfolding color_transfer_def by (auto simp: bind_eq_Some_conv)
  from a1 obtain S8 where b1: "cvtColor bgr2lab s = Some S8" and b2: "Sf = astype_float32 S8"
    unfolding bgr2lab_float_def by auto
  from a2 obtain T8 where b3: "cvtColor bgr2lab t = Some T8" and b4: "Tf = astype_float32 T8"
    unfolding bgr2lab_float_def by auto
  from a3 obtain ls as bs l a b where
    c1: "cv_split Sf = Some (ls, as, bs)" and c2: "cv_split Tf = Some (l, a, b)" and
    c3: "P = (np_add (np_scale (fl_div (np_std l) (np_std ls)) (np_sub l (np_mean l))) (np_mean ls),
              np_add (np_scale (fl_div (np_std a) (np_std as)) (np_sub a (np_mean a))) (np_mean as),
              np_add (np_scale (fl_div (np_std b) (np_std bs)) (np_sub b (np_mean b))) (np_mean bs))"
    unfolding remap_planes_def image_stats_def by (auto simp: bind_eq_Some_conv Let_def)
  from a4 have c4: "cv_merge
     (np_clip (np_add (np_scale (fl_div (np_std l) (np_std ls)) (np_sub l (np_mean l))) (np_mean ls)) 0 255,
      np_clip (np_add (np_scale (fl_div (np_std a) (np_std as)) (np_sub a (np_mean a))) (np_mean as)) 0 255,
      np_clip (np_add (np_scale (fl_div (np_std b) (np_std bs)) (np_sub b (np_mean b))) (np_mean bs)) 0 255)
     = Some M"
    by (simp add: c3 clip_planes_def)
  note rs = read_u8_SomeD [OF assms(1)] read_u8_SomeD [OF assms(2)]
  show ?thesis
    unfolding color_transfer_st_def
    using rs b1 b3 c1 c2 c4 a5
    by (simp add: store_defs nth_append b2 [symmetric] b4 [symmetric])
qed


text \<open>
  C9. When \<^verbatim>\<open>color_transfer\<close> returns, every array the store held before the call
  (the caller's source and target among them) holds the value it held before, and the
  result is at a reference that did not exist before the call: a new array. The two
  in-place statements write into arrays that \<^verbatim>\<open>cv2.split\<close> and the scalar product
  made during the call.
\<close>

theorem color_transfer_st_frame:
  assumes run: "color_transfer_st bgr2lab lab2bgr nan_cast source target h = Some (r, h')"
    and tgt: "target < length h"
  shows "take (length h) h' = h \<and> h' ! source = h ! source \<and> h' ! target = h ! target \<and>
         length h \<le> r \<and> r < length h'"
proof -
  from run obtain t1 h1 s h2 t2 h3 t h4 stS h5 stT h6 l a b h7 h8 h9 h10
      sl sa sb l1 h11 a1 h12 b1 h13 ml ma mb h14 h15 h16
      l2 h17 a2 h18 b2 h19 tr h20 t3 h21 where
    s1: "cvtColor_st bgr2lab source h = Some (t1, h1)" and
    s2: "astype_float32_st t1 h1 = Some (s, h2)" and
    s3: "cvtColor_st bgr2lab target h2 = Some (t2, h3)" and
    s4: "astype_float32_st t2 h3 = Some (t, h4)" and
    s5: "image_stats_st s h4 = Some (stS, h5)" and
    s6: "image_stats_st t h5 = Some (stT, h6)" and
    s7: "cv_split_st t h6 = Some ((l, a, b), h7)" and
    s8: "isub_st l ml h7 = Some h8" and
    s9: "isub_st a ma h8 = Some h9" and
    s10: "isub_st b mb h9 = Some h10" and
    s11: "scale_st sl l h10 = Some (l1, h11)" and
    s12: "scale_st sa a h11 = Some (a1, h12)" and
    s13: "scale_st sb b h12 = Some (b1, h13)" and
    s14: "iadd_st l1 (stat_mean ChL stS) h13 = Some h14" and
    s15: "iadd_st a1 (stat_mean ChA stS) h14 = Some h15" and
    s16: "iadd_st b1 (stat_mean ChB stS) h15 = Some h16" and
    s17: "clip_st l1 0 255 h16 = Some (l2, h17)" and
    s18: "clip_st a1 0 255 h17 = Some (a2, h18)" and
    s19: "clip_st b1 0 255 h18 = Some (b2, h19)" and
    s20: "cv_merge_st (l2, a2, b2) h19 = Some (tr, h20)" and
    s21: "astype_uint8_st nan_cast tr h20 = Some (t3, h21)" and
    s22: "cvtColor_st lab2bgr t3 h21 = Some (r, h')"
    unfolding color_transfer_st_def
    by (auto simp: bind_eq_Some_conv)
  note e1 = cvtColor_st_extends [OF extends_refl s1, THEN conjunct1]
  note e2 = astype_float32_st_extends [OF e1 s2, THEN conjunct1]
  note e3 = cvtColor_st_extends [OF e2 s3, THEN conjunct1]
  note e4 = astype_float32_st_extends [OF e3 s4, THEN conjunct1]
  note e5 = image_stats_st_extends [OF e4 s5]
  note e6 = image_stats_st_extends [OF e5 s6]
  note sp = cv_split_st_extends [OF e6 s7]
  from sp have e7: "extends h h7" and fl: "length h \<le> l" and fa: "length h \<le> a"
    and fb: "length h \<le> b" by simp_all
  note e8 = isub_st_extends [OF e7 fl s8]
  note e9 = isub_st_extends [OF e8 fa s9]
  note e10 = isub_st_extends [OF e9 fb s10]
  note c11 = scale_st_extends [OF e10 s11]
  note c12 = scale_st_extends [OF c11 [THEN conjunct1] s12]
  note c13 = scale_st_extends [OF c12 [THEN conjunct1] s13]
  note e14 = iadd_st_extends [OF c13 [THEN conjunct1] c11 [THEN conjunct2, THEN conjunct1] s14]
  note e15 = iadd_st_extends [OF e14 c12 [THEN conjunct2, THEN conjunct1] s15]
  note e16 = iadd_st_extends [OF e15 c13 [THEN conjunct2, THEN conjunct1] s16]
  note e17 = clip_st_extends [OF e16 s17, THEN conjunct1]
  note e18 = clip_st_extends [OF e17 s18, THEN conjunct1]
  note e19 = clip_st_extends [OF e18 s19, THEN conjunct1]
  note e20 = cv_merge_st_extends [OF e19 s20, THEN conjunct1]
  note e21 = astype_uint8_st_extends [OF e20 s21, THEN conjunct1]
  note fin = cvtColor_st_extends [OF e21 s22]
  from fin have ext: "extends h h'" and r: "length h \<le> r" "r < length h'"
    by simp_all
  have src: "source < length h" using s1 by (rule cvtColor_st_ref)
  show ?thesis
    using ext r extends_nth [OF ext src] extends_nth [OF ext tgt]
    by (simp add: extends_def)
qed


theorem color_transfer_st_frame_witness:
  "\<exists>r h'. color_transfer_st (\<lambda>p. p) (\<lambda>p. p) 0 0 1 caller_store = Some (r, h') \<and>
      1 < length caller_store \<and>
      h' ! 0 = U8 shape_source \<and> h' ! 1 = U8 shape_target \<and> 2 \<le> r \<and> r < length h'"
proof -
  have s: "has_pixels shape_source" and t: "has_pixels shape_target"
    by (simp_all add: shape_source_def shape_target_def has_pixels_def samples_def)
  obtain out where "color_transfer (\<lambda>p. p) (\<lambda>p. p) 0 shape_source shape_target = Some out"
    using color_transfer_pixelwise [OF s t] by blast
  moreover have "read_u8 caller_store 0 = Some shape_source"
    "read_u8 caller_store 1 = Some shape_target"
    by (simp_all add: caller_store_def read_u8_def)
  ultimately obtain r h' where
    run: "color_transfer_st (\<lambda>p. p) (\<lambda>p. p) 0 0 1 caller_store = Some (r, h')"
    using color_transfer_st_refines by blast
  have len: "1 < length caller_store" by (simp add: caller_store_def)
  from color_transfer_st_frame [OF run len]
  have "h' ! 0 = U8 shape_source \<and> h' ! 1 = U8 shape_target \<and> 2 \<le> r \<and> r < length h'"
    by (simp add: caller_store_def)
  with run len show ?thesis by blast
qed

end
